theory Spec2Isabelle
  imports Main "HOL-Library.Sublist"
begin

section \<open>Strings\<close>

text \<open>
  Python strings are modelled as HOL strings (lists of 8-bit characters).
  \<^verbatim>\<open>str.lower()\<close> maps the letters \<^verbatim>\<open>A\<close> .. \<^verbatim>\<open>Z\<close> to
  \<^verbatim>\<open>a\<close> .. \<^verbatim>\<open>z\<close> and leaves every other character of the ASCII range as it is.
  Python also lower-cases letters beyond ASCII; \<open>lower\<close> leaves their bytes unchanged, so
  it agrees with \<^verbatim>\<open>str.lower()\<close> on ASCII text only. The general properties below
  are stated about the lower-cased text and do not unfold \<open>lower\<close>; only the worked
  examples evaluate it, on ASCII queries.
\<close>

definition lower_char :: "char \<Rightarrow> char" where
  "lower_char c =
     (let n = (of_char c :: nat) in if 65 \<le> n \<and> n \<le> 90 then char_of (n + 32) else c)"

definition lower :: "string \<Rightarrow> string" where
  "lower s = map lower_char s"

text \<open>
  \<^verbatim>\<open>w in s\<close> on strings: \<open>w\<close> occurs in \<open>s\<close> as a contiguous block. The scan
  tries every start position from the left.
\<close>

fun contains :: "string \<Rightarrow> string \<Rightarrow> bool" where
  "contains [] w = (w = [])"
| "contains (c # cs) w = (prefix w (c # cs) \<or> contains cs w)"

text \<open>\<^verbatim>\<open>any(word in s for word in words)\<close>.\<close>

definition any_in :: "string list \<Rightarrow> string \<Rightarrow> bool" where
  "any_in words s = list_ex (\<lambda>word. contains s word) words"

text \<open>
  \<^verbatim>\<open>str(n)\<close> as used by the f-strings: the decimal digits of an integer, with a
  leading minus sign for a negative one.
\<close>

definition digit_char :: "nat \<Rightarrow> char" where
  "digit_char d = char_of (48 + d)"

function str_of_nat :: "nat \<Rightarrow> string" where
  "str_of_nat n =
     (if n < 10 then [digit_char n] else str_of_nat (n div 10) @ [digit_char (n mod 10)])"
  by pat_completeness auto
termination
  by (relation "measure (\<lambda>n. n)") auto

declare str_of_nat.simps [simp del]

definition str_of_int :: "int \<Rightarrow> string" where
  "str_of_int i = (if i < 0 then CHR ''-'' # str_of_nat (nat (- i)) else str_of_nat (nat i))"

section \<open>Memory bank\<close>

text \<open>
  \<^verbatim>\<open>StudentMemoryBank.students\<close> is a dictionary from student ids to session
  dictionaries. A session dictionary always has the four keys
  \<^verbatim>\<open>profile\<close>, \<^verbatim>\<open>progress\<close>, \<^verbatim>\<open>preferences\<close>, \<^verbatim>\<open>created_at\<close>
  and is modelled as a record; an entry of \<^verbatim>\<open>progress\<close> always has the keys
  \<^verbatim>\<open>activity\<close>, \<^verbatim>\<open>details\<close>, \<^verbatim>\<open>timestamp\<close>. Every reading of
  \<^verbatim>\<open>datetime.now().isoformat()\<close> is an extra argument of the operation that reads the
  clock. Calls of the logger do not touch the bank or any returned value and are left out.
\<close>

type_synonym py_dict = "string \<rightharpoonup> string"

record progress_entry =
  activity :: string
  details :: py_dict
  timestamp :: string

record session =
  profile :: py_dict
  progress :: "progress_entry list"
  preferences :: py_dict
  created_at :: string

record memory_bank =
  students :: "string \<rightharpoonup> session"

definition init_memory_bank :: memory_bank where
  "init_memory_bank = \<lparr>students = Map.empty\<rparr>"

definition add_student :: "memory_bank \<Rightarrow> string \<Rightarrow> py_dict \<Rightarrow> string \<Rightarrow> memory_bank" where
  "add_student mb sid prof now =
     mb\<lparr>students := (students mb)(sid \<mapsto>
        \<lparr>profile = prof, progress = [], preferences = Map.empty, created_at = now\<rparr>)\<rparr>"

definition update_progress ::
  "memory_bank \<Rightarrow> string \<Rightarrow> string \<Rightarrow> py_dict \<Rightarrow> string \<Rightarrow> memory_bank" where
  "update_progress mb sid act det now =
     (case students mb sid of
        None \<Rightarrow> mb
      | Some s \<Rightarrow>
          mb\<lparr>students := (students mb)(sid \<mapsto>
             s\<lparr>progress := progress s @ [\<lparr>activity = act, details = det, timestamp = now\<rparr>]\<rparr>)\<rparr>)"

text \<open>
  \<^verbatim>\<open>self.students.get(student_id, {})\<close>: the session stored under the id, or the empty
  dictionary, which no session equals; \<open>None\<close> stands for that empty dictionary. The
  operation is returned together with the bank it leaves behind.
\<close>

definition get_student_context :: "memory_bank \<Rightarrow> string \<Rightarrow> session option \<times> memory_bank" where
  "get_student_context mb sid = (students mb sid, mb)"

section \<open>Custom tools\<close>

subsection \<open>DSAProblemRecommender\<close>

record problem =
  name :: string
  topic :: string
  difficulty :: string

definition problems :: "string \<rightharpoonup> problem list" where
  "problems =
     [''easy'' \<mapsto>
        [\<lparr>name = ''Two Sum'', topic = ''Array'', difficulty = ''Easy''\<rparr>,
         \<lparr>name = ''Valid Parentheses'', topic = ''Stack'', difficulty = ''Easy''\<rparr>,
         \<lparr>name = ''Merge Two Sorted Lists'', topic = ''Linked List'', difficulty = ''Easy''\<rparr>],
      ''medium'' \<mapsto>
        [\<lparr>name = ''LRU Cache'', topic = ''Design'', difficulty = ''Medium''\<rparr>,
         \<lparr>name = ''Binary Tree Level Order'', topic = ''Tree'', difficulty = ''Medium''\<rparr>,
         \<lparr>name = ''Longest Substring'', topic = ''String'', difficulty = ''Medium''\<rparr>],
      ''hard'' \<mapsto>
        [\<lparr>name = ''Median of Two Sorted Arrays'', topic = ''Binary Search'', difficulty = ''Hard''\<rparr>,
         \<lparr>name = ''Word Ladder II'', topic = ''Graph'', difficulty = ''Hard''\<rparr>]]"

text \<open>
  \<^verbatim>\<open>recommend(level, topic=None)\<close>. The topic filter runs only for a truthy topic:
  neither \<^verbatim>\<open>None\<close> nor the empty string.
\<close>

definition dsa_recommend :: "string \<Rightarrow> string option \<Rightarrow> problem list" where
  "dsa_recommend level topic_arg =
     (let ps = (case problems (lower level) of None \<Rightarrow> [] | Some ps \<Rightarrow> ps)
      in case topic_arg of
           None \<Rightarrow> ps
         | Some t \<Rightarrow> if t = [] then ps else filter (\<lambda>p. lower (topic p) = lower t) ps)"

subsection \<open>ResumeAnalyzer\<close>

definition technical_skills :: "string list" where
  "technical_skills =
     [''python'', ''java'', ''c++'', ''javascript'', ''sql'', ''react'', ''aws'', ''docker'',
      ''kubernetes'']"

definition soft_skills :: "string list" where
  "soft_skills =
     [''leadership'', ''communication'', ''teamwork'', ''problem-solving'', ''analytical'']"

definition action_verbs :: "string list" where
  "action_verbs =
     [''developed'', ''implemented'', ''designed'', ''optimized'', ''led'', ''managed'',
      ''created'']"

definition ats_keywords :: "string \<rightharpoonup> string list" where
  "ats_keywords =
     [''technical_skills'' \<mapsto> technical_skills,
      ''soft_skills'' \<mapsto> soft_skills,
      ''action_verbs'' \<mapsto> action_verbs]"

record analysis =
  ats_score :: int
  keyword_analysis :: "string \<rightharpoonup> string list"
  suggestions :: "string list"
  strengths :: "string list"

text \<open>
  The list comprehension of \<^verbatim>\<open>analyze\<close>: the technical skills that occur in the
  lower-cased resume text, in the order of the vocabulary.
\<close>

definition found_tech :: "string \<Rightarrow> string list" where
  "found_tech resume_text =
     filter (\<lambda>skill. contains (lower resume_text) skill) technical_skills"

definition analyze :: "string \<Rightarrow> string \<Rightarrow> analysis" where
  "analyze resume_text target_role =
     (let ft = found_tech resume_text
      in \<lparr>ats_score = min 100 (int (length ft) * 5 + 20),
          keyword_analysis = [''technical_skills'' \<mapsto> ft],
          suggestions =
            (if length ft < 5 then [''Add more technical skills relevant to the role''] else []),
          strengths =
            (if ft \<noteq> [] then [''Found '' @ str_of_nat (length ft) @ '' relevant technical skills'']
             else [])\<rparr>)"

subsection \<open>LearningResourceAgent\<close>

text \<open>The keys \<^verbatim>\<open>type\<close> and \<^verbatim>\<open>difficulty\<close> of a resource are the fields
  \<open>res_type\<close> and \<open>res_difficulty\<close>.\<close>

record resource =
  title :: string
  res_type :: string
  res_difficulty :: string

definition resources :: "string \<rightharpoonup> resource list" where
  "resources =
     [''dsa'' \<mapsto>
        [\<lparr>title = ''LeetCode Patterns'', res_type = ''Practice'', res_difficulty = ''Medium''\<rparr>,
         \<lparr>title = ''Neetcode.io'', res_type = ''Video + Practice'',
          res_difficulty = ''All levels''\<rparr>],
      ''system_design'' \<mapsto>
        [\<lparr>title = ''System Design Primer (GitHub)'', res_type = ''Article'',
          res_difficulty = ''Beginner''\<rparr>,
         \<lparr>title = ''ByteByteGo'', res_type = ''Video'', res_difficulty = ''All levels''\<rparr>]]"

text \<open>\<^verbatim>\<open>s.replace(' ', '_')\<close>: every blank becomes an underscore.\<close>

definition replace_blank :: "string \<Rightarrow> string" where
  "replace_blank s = map (\<lambda>c. if c = CHR '' '' then CHR ''_'' else c) s"

definition resource_recommend :: "string \<Rightarrow> string \<Rightarrow> resource list" where
  "resource_recommend topic_arg level =
     (let topic_lower = replace_blank (lower topic_arg)
      in case resources topic_lower of None \<Rightarrow> [] | Some rs \<Rightarrow> rs)"

subsection \<open>StudyPlannerAgent\<close>

datatype py_error = ZeroDivisionError

record week_plan =
  week :: int
  focus :: string
  activities :: "string list"

record plan =
  duration :: string
  daily_commitment :: string
  weekly_schedule :: "week_plan list"
  milestones :: "string list"

text \<open>
  The body of the loop \<^verbatim>\<open>for week in range(1, weeks + 1)\<close>, run over the list of
  week numbers still to come, with the schedule built so far. \<^verbatim>\<open>% len(focus_areas)\<close>
  raises \<^verbatim>\<open>ZeroDivisionError\<close> on an empty list of focus areas; otherwise its
  result is an index of the list.
\<close>

fun week_loop :: "string list \<Rightarrow> int list \<Rightarrow> week_plan list \<Rightarrow> py_error + week_plan list" where
  "week_loop focus_areas [] schedule = Inr schedule"
| "week_loop focus_areas (w # ws) schedule =
     (if length focus_areas = 0 then Inl ZeroDivisionError
      else week_loop focus_areas ws
             (schedule @
              [\<lparr>week = w,
                focus = focus_areas ! nat ((w - 1) mod int (length focus_areas)),
                activities = [''Practice coding problems'', ''Mock interviews'', ''Resume review'']\<rparr>]))"

definition create_plan :: "int \<Rightarrow> string list \<Rightarrow> int \<Rightarrow> py_error + plan" where
  "create_plan weeks focus_areas hours_per_day =
     (case week_loop focus_areas [1..weeks] [] of
        Inl e \<Rightarrow> Inl e
      | Inr schedule \<Rightarrow>
          Inr \<lparr>duration = str_of_int weeks @ '' weeks'',
               daily_commitment = str_of_int hours_per_day @ '' hours/day'',
               weekly_schedule = schedule,
               milestones = []\<rparr>)"

section \<open>Coordinator\<close>

datatype result_val =
  Problems "problem list"
| Analysis analysis
| Resources "resource list"
| Plan plan

record response =
  student_id :: string
  query :: string
  results :: "string \<rightharpoonup> result_val"
  summary :: string

type_synonym results_dict = "string \<rightharpoonup> result_val"

text \<open>
  The four routing statements of \<^verbatim>\<open>process_query\<close>, in the order of the source.
  Each tests the lower-cased query against its keyword list and, on a match, stores the
  answer of its tool under its key in \<^verbatim>\<open>response['results']\<close>; the dictionary built
  so far is passed in and the updated one returned. Only the planner can raise.
\<close>

definition route_problems :: "string \<Rightarrow> results_dict \<Rightarrow> results_dict" where
  "route_problems query_lower res =
     (if any_in [''problem'', ''dsa'', ''algorithm''] query_lower
      then let level = (if contains query_lower ''easy'' then ''easy''
                        else if contains query_lower ''hard'' then ''hard''
                        else ''medium'')
           in res(''dsa_recommendations'' \<mapsto> Problems (dsa_recommend level None))
      else res)"

definition route_resume :: "string \<Rightarrow> results_dict \<Rightarrow> results_dict" where
  "route_resume query_lower res =
     (if any_in [''resume'', ''cv'', ''ats''] query_lower
      then res(''resume_analysis'' \<mapsto>
             Analysis (analyze ''Sample resume text'' ''Software Engineer''))
      else res)"

definition route_resources :: "string \<Rightarrow> results_dict \<Rightarrow> results_dict" where
  "route_resources query_lower res =
     (if any_in [''learn'', ''resource'', ''study material''] query_lower
      then res(''learning_resources'' \<mapsto> Resources (resource_recommend ''dsa'' ''All levels''))
      else res)"

definition route_plan :: "string \<Rightarrow> results_dict \<Rightarrow> py_error + results_dict" where
  "route_plan query_lower res =
     (if any_in [''plan'', ''schedule'', ''weeks''] query_lower
      then (case create_plan 4 [''DSA'', ''System Design''] 4 of
              Inl e \<Rightarrow> Inl e
            | Inr p \<Rightarrow> Inr (res(''study_plan'' \<mapsto> Plan p)))
      else Inr res)"

text \<open>
  \<^verbatim>\<open>process_query\<close> fetches the context (and does not use it), routes the query,
  sets the summary and records the query. It reads the clock once for the details of the
  activity (\<open>now1\<close>); \<^verbatim>\<open>update_progress\<close> reads it again (\<open>now2\<close>). An exception
  of the planner would leave the method before the progress is updated.
\<close>

definition process_query ::
  "memory_bank \<Rightarrow> string \<Rightarrow> string \<Rightarrow> string \<Rightarrow> string \<Rightarrow> py_error + (response \<times> memory_bank)" where
  "process_query mb sid q now1 now2 =
     (let (ctx, mb0) = get_student_context mb sid;
          query_lower = lower q;
          results1 = route_problems query_lower Map.empty;
          results2 = route_resume query_lower results1;
          results3 = route_resources query_lower results2
      in case route_plan query_lower results3 of
           Inl e \<Rightarrow> Inl e
         | Inr results4 \<Rightarrow>
             Inr (\<lparr>student_id = sid, query = q, results = results4,
                   summary = ''Here are your personalized recommendations.''\<rparr>,
                  update_progress mb0 sid ''query''
                    [''question'' \<mapsto> q, ''timestamp'' \<mapsto> now1] now2))"

section \<open>Properties of the string operations\<close>

lemma contains_iff: "contains s w \<longleftrightarrow> (\<exists>ps ss. s = ps @ w @ ss)"
proof (induction s)
  case Nil
  then show ?case by auto
next
  case (Cons c cs)
  show ?case
  proof
    assume "contains (c # cs) w"
    then consider "prefix w (c # cs)" | "contains cs w" by auto
    then show "\<exists>ps ss. c # cs = ps @ w @ ss"
    proof cases
      case 1
      then obtain ss where "c # cs = w @ ss" by (auto simp: prefix_def)
      then have "c # cs = [] @ w @ ss" by simp
      then show ?thesis by blast
    next
      case 2
      with Cons.IH obtain ps ss where "cs = ps @ w @ ss" by blast
      then have "c # cs = (c # ps) @ w @ ss" by simp
      then show ?thesis by blast
    qed
  next
    assume "\<exists>ps ss. c # cs = ps @ w @ ss"
    then obtain ps ss where eq: "c # cs = ps @ w @ ss" by blast
    show "contains (c # cs) w"
    proof (cases ps)
      case Nil
      with eq have "prefix w (c # cs)" by (simp add: prefix_def)
      then show ?thesis by simp
    next
      case (Cons p ps')
      with eq have "cs = ps' @ w @ ss" by simp
      with Cons.IH have "contains cs w" by blast
      then show ?thesis by simp
    qed
  qed
qed

section \<open>Properties of the tools and of the routing\<close>

text \<open>The plan the coordinator always asks for: four weeks, two focus areas.\<close>

lemma create_plan_demo:
  "create_plan 4 [''DSA'', ''System Design''] 4 =
     Inr \<lparr>duration = ''4 weeks'', daily_commitment = ''4 hours/day'',
          weekly_schedule =
            [\<lparr>week = 1, focus = ''DSA'',
              activities = [''Practice coding problems'', ''Mock interviews'', ''Resume review'']\<rparr>,
             \<lparr>week = 2, focus = ''System Design'',
              activities = [''Practice coding problems'', ''Mock interviews'', ''Resume review'']\<rparr>,
             \<lparr>week = 3, focus = ''DSA'',
              activities = [''Practice coding problems'', ''Mock interviews'', ''Resume review'']\<rparr>,
             \<lparr>week = 4, focus = ''System Design'',
              activities = [''Practice coding problems'', ''Mock interviews'', ''Resume review'']\<rparr>],
          milestones = []\<rparr>"
  by code_simp

text \<open>Hence the planner never raises inside the coordinator.\<close>

lemma route_plan_returns:
  "\<exists>p. route_plan ql res =
     Inr (if any_in [''plan'', ''schedule'', ''weeks''] ql then res(''study_plan'' \<mapsto> Plan p) else res)"
proof -
  from create_plan_demo obtain p where cp: "create_plan 4 [''DSA'', ''System Design''] 4 = Inr p"
    by blast
  have "route_plan ql res =
     Inr (if any_in [''plan'', ''schedule'', ''weeks''] ql then res(''study_plan'' \<mapsto> Plan p) else res)"
    by (simp add: route_plan_def cp)
  then show ?thesis by blast
qed

text \<open>Each routing statement writes its own key only.\<close>

lemma route_resume_other:
  "k \<noteq> ''resume_analysis'' \<Longrightarrow> route_resume ql res k = res k"
  by (simp add: route_resume_def)

lemma route_resources_other:
  "k \<noteq> ''learning_resources'' \<Longrightarrow> route_resources ql res k = res k"
  by (simp add: route_resources_def)

lemma route_problems_key:
  "route_problems ql Map.empty ''dsa_recommendations'' =
     (if any_in [''problem'', ''dsa'', ''algorithm''] ql
      then Some (Problems (dsa_recommend
             (if contains ql ''easy'' then ''easy''
              else if contains ql ''hard'' then ''hard'' else ''medium'') None))
      else None)"
  by (simp add: route_problems_def)

lemma any_in_dsa:
  "any_in [''problem'', ''dsa'', ''algorithm''] s \<longleftrightarrow>
     contains s ''problem'' \<or> contains s ''dsa'' \<or> contains s ''algorithm''"
  by (simp add: any_in_def)

text \<open>
  \<^verbatim>\<open>process_query\<close> always returns: the response carries the ids, the fixed summary
  and the routed results, and the bank is the one \<^verbatim>\<open>update_progress\<close> leaves.
\<close>

lemma process_query_returns:
  "\<exists>res. process_query mb sid q t1 t2 =
     Inr (\<lparr>student_id = sid, query = q, results = res,
           summary = ''Here are your personalized recommendations.''\<rparr>,
          update_progress mb sid ''query'' [''question'' \<mapsto> q, ''timestamp'' \<mapsto> t1] t2) \<and>
     res ''dsa_recommendations'' = route_problems (lower q) Map.empty ''dsa_recommendations''"
proof -
  let ?r3 = "route_resources (lower q) (route_resume (lower q) (route_problems (lower q) Map.empty))"
  from route_plan_returns obtain p where
    rp: "route_plan (lower q) ?r3 =
      Inr (if any_in [''plan'', ''schedule'', ''weeks''] (lower q)
           then ?r3(''study_plan'' \<mapsto> Plan p) else ?r3)"
    by blast
  have "(if any_in [''plan'', ''schedule'', ''weeks''] (lower q)
           then ?r3(''study_plan'' \<mapsto> Plan p) else ?r3) ''dsa_recommendations''
        = route_problems (lower q) Map.empty ''dsa_recommendations''"
    by (simp add: route_resources_other route_resume_other)
  with rp show ?thesis
    by (simp add: process_query_def get_student_context_def Let_def)
qed

text \<open>A query that matches no keyword list gets empty results.\<close>

lemma process_query_no_match:
  assumes "\<not> any_in [''problem'', ''dsa'', ''algorithm''] (lower q)"
    and "\<not> any_in [''resume'', ''cv'', ''ats''] (lower q)"
    and "\<not> any_in [''learn'', ''resource'', ''study material''] (lower q)"
    and "\<not> any_in [''plan'', ''schedule'', ''weeks''] (lower q)"
  shows "process_query mb sid q t1 t2 =
     Inr (\<lparr>student_id = sid, query = q, results = Map.empty,
           summary = ''Here are your personalized recommendations.''\<rparr>,
          update_progress mb sid ''query'' [''question'' \<mapsto> q, ''timestamp'' \<mapsto> t1] t2)"
  using assms
  by (simp add: process_query_def get_student_context_def route_problems_def route_resume_def
      route_resources_def route_plan_def Let_def)

lemma help_me_study_no_match:
  "\<not> any_in [''problem'', ''dsa'', ''algorithm''] (lower ''help me study'')"
  "\<not> any_in [''resume'', ''cv'', ''ats''] (lower ''help me study'')"
  "\<not> any_in [''learn'', ''resource'', ''study material''] (lower ''help me study'')"
  "\<not> any_in [''plan'', ''schedule'', ''weeks''] (lower ''help me study'')"
  by code_simp+

text \<open>
  The results stay empty exactly when none of the four routing statements fires: each of
  them adds a key when its test succeeds and leaves the dictionary as it is otherwise.
\<close>

lemma route_problems_empty_iff:
  "route_problems ql Map.empty = Map.empty \<longleftrightarrow>
     \<not> any_in [''problem'', ''dsa'', ''algorithm''] ql"
  by (simp add: route_problems_def)

lemma route_resume_empty_iff:
  "route_resume ql res = Map.empty \<longleftrightarrow>
     \<not> any_in [''resume'', ''cv'', ''ats''] ql \<and> res = Map.empty"
  by (simp add: route_resume_def)

lemma route_resources_empty_iff:
  "route_resources ql res = Map.empty \<longleftrightarrow>
     \<not> any_in [''learn'', ''resource'', ''study material''] ql \<and> res = Map.empty"
  by (simp add: route_resources_def)

lemma process_query_empty_iff:
  assumes "process_query mb sid q t1 t2 = Inr (r, mb')"
  shows "results r = Map.empty \<longleftrightarrow>
     \<not> any_in [''problem'', ''dsa'', ''algorithm''] (lower q) \<and>
     \<not> any_in [''resume'', ''cv'', ''ats''] (lower q) \<and>
     \<not> any_in [''learn'', ''resource'', ''study material''] (lower q) \<and>
     \<not> any_in [''plan'', ''schedule'', ''weeks''] (lower q)"
proof -
  let ?r3 = "route_resources (lower q) (route_resume (lower q) (route_problems (lower q) Map.empty))"
  from route_plan_returns obtain p where
    rp: "route_plan (lower q) ?r3 =
      Inr (if any_in [''plan'', ''schedule'', ''weeks''] (lower q)
           then ?r3(''study_plan'' \<mapsto> Plan p) else ?r3)"
    by blast
  from assms rp have res: "results r =
      (if any_in [''plan'', ''schedule'', ''weeks''] (lower q)
           then ?r3(''study_plan'' \<mapsto> Plan p) else ?r3)"
    by (auto simp add: process_query_def get_student_context_def Let_def)
  show ?thesis
    unfolding res
    by (auto simp add: route_resources_empty_iff route_resume_empty_iff route_problems_empty_iff)
qed

lemma any_in_three: "any_in [a, b, c] s \<longleftrightarrow> contains s a \<or> contains s b \<or> contains s c"
  by (simp add: any_in_def)

section \<open>Properties of the memory bank\<close>

lemma update_progress_present:
  "students mb u = Some s \<Longrightarrow>
   students (update_progress mb u act det now) u =
     Some (s\<lparr>progress := progress s @ [\<lparr>activity = act, details = det, timestamp = now\<rparr>]\<rparr>)"
  by (simp add: update_progress_def)

lemma update_progress_absent:
  "students mb u = None \<Longrightarrow> update_progress mb u act det now = mb"
  by (simp add: update_progress_def)

lemma update_progress_other:
  "sid \<noteq> u \<Longrightarrow> students (update_progress mb sid act det now) u = students mb u"
  by (simp add: update_progress_def split: option.splits)

lemma update_progress_prefix:
  assumes "students mb u = Some s"
  shows "\<exists>s'. students (update_progress mb sid act det now) u = Some s' \<and>
     prefix (progress s) (progress s') \<and> length (progress s') \<le> length (progress s) + 1"
proof (cases "sid = u")
  case True
  with update_progress_present [OF assms, of act det now] show ?thesis by simp
next
  case False
  with update_progress_other [of sid u mb act det now] assms show ?thesis by simp
qed

section \<open>Properties of the planner and of the resume analyzer\<close>

text \<open>With a focus area to pick, the loop never raises and adds one entry per week number.\<close>

lemma week_loop_map:
  "focus_areas \<noteq> [] \<Longrightarrow>
   week_loop focus_areas ws schedule =
     Inr (schedule @
          map (\<lambda>w. \<lparr>week = w,
                     focus = focus_areas ! nat ((w - 1) mod int (length focus_areas)),
                     activities = [''Practice coding problems'', ''Mock interviews'', ''Resume review'']\<rparr>) ws)"
  by (induction ws arbitrary: schedule) simp_all

lemma create_plan_schedule:
  assumes "focus_areas \<noteq> []"
  shows "\<exists>p. create_plan weeks focus_areas hours_per_day = Inr p \<and>
     weekly_schedule p =
       map (\<lambda>w. \<lparr>week = w,
                  focus = focus_areas ! nat ((w - 1) mod int (length focus_areas)),
                  activities = [''Practice coding problems'', ''Mock interviews'', ''Resume review'']\<rparr>)
           [1..weeks]"
  by (simp add: create_plan_def week_loop_map [OF assms])

text \<open>
  \<^verbatim>\<open>self.ats_keywords['technical_skills']\<close> is the list \<open>technical_skills\<close> that
  \<open>found_tech\<close> filters.
\<close>

lemma ats_keywords_technical: "ats_keywords ''technical_skills'' = Some technical_skills"
  by (simp add: ats_keywords_def)

text \<open>At most the nine technical skills can be found, so the cap of 100 is never reached.\<close>

lemma found_tech_bound: "length (found_tech t) \<le> 9"
proof -
  have "length (found_tech t) \<le> length technical_skills"
    unfolding found_tech_def by (rule length_filter_le)
  then show ?thesis by (simp add: technical_skills_def)
qed

lemma ats_score_eq: "ats_score (analyze t role) = int (length (found_tech t)) * 5 + 20"
  using found_tech_bound [of t] by (simp add: analyze_def Let_def)


section \<open>The specified properties\<close>

text \<open>
  C1. For every student id and every query, \<^verbatim>\<open>process_query\<close> returns, and the
  results of its response have the key \<^verbatim>\<open>dsa_recommendations\<close> if and only if the
  lower-cased query contains one of the substrings \<^verbatim>\<open>problem\<close>, \<^verbatim>\<open>dsa\<close>,
  \<^verbatim>\<open>algorithm\<close>.
\<close>

theorem dsa_key_iff_keyword:
  "\<exists>r mb'. process_query mb u q now1 now2 = Inr (r, mb') \<and>
     (''dsa_recommendations'' \<in> dom (results r) \<longleftrightarrow>
        contains (lower q) ''problem'' \<or> contains (lower q) ''dsa'' \<or>
        contains (lower q) ''algorithm'')"
proof -
  from process_query_returns [of mb u q now1 now2] obtain res mb' where
    pq: "process_query mb u q now1 now2 =
           Inr (\<lparr>student_id = u, query = q, results = res,
                 summary = ''Here are your personalized recommendations.''\<rparr>, mb')"
    and key: "res ''dsa_recommendations'' = route_problems (lower q) Map.empty ''dsa_recommendations''"
    by blast
  have "''dsa_recommendations'' \<in> dom res \<longleftrightarrow>
        contains (lower q) ''problem'' \<or> contains (lower q) ''dsa'' \<or>
        contains (lower q) ''algorithm''"
    by (simp add: dom_def key route_problems_key any_in_dsa)
  with pq show ?thesis by simp
qed

text \<open>The key is there for an upper-case \<^verbatim>\<open>ALGORITHM\<close> and missing for
  \<^verbatim>\<open>help me study\<close>.\<close>

theorem dsa_key_iff_keyword_witness:
  "(\<exists>r mb'. process_query init_memory_bank ''student_001'' ''Give me an ALGORITHM'' ''t1'' ''t2''
       = Inr (r, mb') \<and>
     ''dsa_recommendations'' \<in> dom (results r) \<and>
     contains (lower ''Give me an ALGORITHM'') ''algorithm'') \<and>
   (\<exists>r mb'. process_query init_memory_bank ''student_001'' ''help me study'' ''t1'' ''t2''
       = Inr (r, mb') \<and>
     ''dsa_recommendations'' \<notin> dom (results r))"
proof -
  have k: "contains (lower ''Give me an ALGORITHM'') ''algorithm''" by code_simp
  have n: "\<not> contains (lower ''help me study'') ''problem''"
    "\<not> contains (lower ''help me study'') ''dsa''"
    "\<not> contains (lower ''help me study'') ''algorithm''" by code_simp+
  from dsa_key_iff_keyword [of init_memory_bank "''student_001''" "''Give me an ALGORITHM''" "''t1''" "''t2''"]
    dsa_key_iff_keyword [of init_memory_bank "''student_001''" "''help me study''" "''t1''" "''t2''"]
  show ?thesis using k n by auto
qed

text \<open>
  C2. For every query that triggers the problem category, the level handed to the problem
  recommender is \<^verbatim>\<open>easy\<close> when the lower-cased query contains \<^verbatim>\<open>easy\<close> (also
  when it contains \<^verbatim>\<open>hard\<close> as well), otherwise \<^verbatim>\<open>hard\<close> when it contains
  \<^verbatim>\<open>hard\<close>, otherwise \<^verbatim>\<open>medium\<close>: the recommendations in the response are those
  of that level.
\<close>

theorem difficulty_resolution:
  assumes "contains (lower q) ''problem'' \<or> contains (lower q) ''dsa'' \<or>
           contains (lower q) ''algorithm''"
  shows "\<exists>r mb'. process_query mb u q now1 now2 = Inr (r, mb') \<and>
     results r ''dsa_recommendations'' =
       Some (Problems (dsa_recommend
         (if contains (lower q) ''easy'' then ''easy''
          else if contains (lower q) ''hard'' then ''hard'' else ''medium'') None))"
proof -
  from process_query_returns [of mb u q now1 now2] obtain res mb' where
    pq: "process_query mb u q now1 now2 =
           Inr (\<lparr>student_id = u, query = q, results = res,
                 summary = ''Here are your personalized recommendations.''\<rparr>, mb')"
    and key: "res ''dsa_recommendations'' = route_problems (lower q) Map.empty ''dsa_recommendations''"
    by blast
  from assms have "any_in [''problem'', ''dsa'', ''algorithm''] (lower q)"
    by (simp add: any_in_dsa)
  then have "res ''dsa_recommendations'' =
       Some (Problems (dsa_recommend
         (if contains (lower q) ''easy'' then ''easy''
          else if contains (lower q) ''hard'' then ''hard'' else ''medium'') None))"
    by (simp add: key route_problems_key)
  with pq show ?thesis by simp
qed

text \<open>A query with both \<^verbatim>\<open>easy\<close> and \<^verbatim>\<open>hard\<close> gets the easy problems.\<close>

theorem difficulty_resolution_witness:
  "contains (lower ''Not easy, a HARD problem'') ''problem'' \<and>
   contains (lower ''Not easy, a HARD problem'') ''easy'' \<and>
   contains (lower ''Not easy, a HARD problem'') ''hard'' \<and>
   (\<exists>r mb'. process_query init_memory_bank ''student_001'' ''Not easy, a HARD problem'' ''t1'' ''t2''
       = Inr (r, mb') \<and>
     results r ''dsa_recommendations'' =
       Some (Problems
         [\<lparr>name = ''Two Sum'', topic = ''Array'', difficulty = ''Easy''\<rparr>,
          \<lparr>name = ''Valid Parentheses'', topic = ''Stack'', difficulty = ''Easy''\<rparr>,
          \<lparr>name = ''Merge Two Sorted Lists'', topic = ''Linked List'', difficulty = ''Easy''\<rparr>]))"
proof -
  have p: "contains (lower ''Not easy, a HARD problem'') ''problem''" by code_simp
  have e: "contains (lower ''Not easy, a HARD problem'') ''easy''" by code_simp
  have h: "contains (lower ''Not easy, a HARD problem'') ''hard''" by code_simp
  have d: "dsa_recommend ''easy'' None =
         [\<lparr>name = ''Two Sum'', topic = ''Array'', difficulty = ''Easy''\<rparr>,
          \<lparr>name = ''Valid Parentheses'', topic = ''Stack'', difficulty = ''Easy''\<rparr>,
          \<lparr>name = ''Merge Two Sorted Lists'', topic = ''Linked List'', difficulty = ''Easy''\<rparr>]"
    by code_simp
  from p have t: "contains (lower ''Not easy, a HARD problem'') ''problem'' \<or>
      contains (lower ''Not easy, a HARD problem'') ''dsa'' \<or>
      contains (lower ''Not easy, a HARD problem'') ''algorithm''" by blast
  from difficulty_resolution [OF t, of init_memory_bank "''student_001''" "''t1''" "''t2''"]
  show ?thesis using p e h d by simp
qed

text \<open>
  C3. For every student id present in the bank and every query (whatever it matches),
  one call of \<^verbatim>\<open>process_query\<close> returns and leaves the student's session with
  exactly one more progress entry at the end of the log: its activity is \<^verbatim>\<open>query\<close>
  and its details hold the original query text under \<^verbatim>\<open>question\<close>. Nothing else of
  the session changes.
\<close>

theorem query_appends_one_record:
  assumes "students mb u = Some s"
  shows "\<exists>r mb'. process_query mb u q now1 now2 = Inr (r, mb') \<and>
     students mb' u =
       Some (s\<lparr>progress := progress s @
         [\<lparr>activity = ''query'',
           details = [''question'' \<mapsto> q, ''timestamp'' \<mapsto> now1],
           timestamp = now2\<rparr>]\<rparr>)"
proof -
  from process_query_returns [of mb u q now1 now2] obtain res where
    pq: "process_query mb u q now1 now2 =
           Inr (\<lparr>student_id = u, query = q, results = res,
                 summary = ''Here are your personalized recommendations.''\<rparr>,
                update_progress mb u ''query'' [''question'' \<mapsto> q, ''timestamp'' \<mapsto> now1] now2)"
    by blast
  with update_progress_present [OF assms] show ?thesis by simp
qed

text \<open>
  A registered student asks a query that matches all four categories.
\<close>

theorem query_appends_one_record_witness:
  "students (add_student init_memory_bank ''student_001'' Map.empty ''t0'') ''student_001'' =
     Some \<lparr>profile = Map.empty, progress = [], preferences = Map.empty, created_at = ''t0''\<rparr> \<and>
   (\<exists>r mb'. process_query (add_student init_memory_bank ''student_001'' Map.empty ''t0'')
        ''student_001'' ''Plan my resume: learn DSA in 3 weeks'' ''t1'' ''t2'' = Inr (r, mb') \<and>
      map_option (\<lambda>s. map activity (progress s)) (students mb' ''student_001'') = Some [''query''] \<and>
      map_option (\<lambda>s. map (\<lambda>e. details e ''question'') (progress s)) (students mb' ''student_001'')
        = Some [Some ''Plan my resume: learn DSA in 3 weeks''])"
proof -
  have s: "students (add_student init_memory_bank ''student_001'' Map.empty ''t0'') ''student_001'' =
     Some \<lparr>profile = Map.empty, progress = [], preferences = Map.empty, created_at = ''t0''\<rparr>"
    by (simp add: add_student_def)
  from query_appends_one_record [OF s, of "''Plan my resume: learn DSA in 3 weeks''" "''t1''" "''t2''"]
  show ?thesis using s by auto
qed

text \<open>
  C4. For every student id that is not in the bank and every query,
  \<^verbatim>\<open>process_query\<close> does not fail: the fetched context is the empty dictionary, the
  progress update does nothing, the bank is returned unchanged (no session is created),
  and the response is the full one: ids, summary, and the same response a registered
  student would get.
\<close>

theorem unknown_student_query:
  assumes "students mb u = None"
  shows "\<exists>r. process_query mb u q now1 now2 = Inr (r, mb) \<and>
     fst (get_student_context mb u) = None \<and>
     update_progress mb u act det now = mb \<and>
     student_id r = u \<and> query r = q \<and>
     summary r = ''Here are your personalized recommendations.'' \<and>
     (\<exists>mb2. process_query (add_student mb u prof now0) u q now1 now2 = Inr (r, mb2))"
proof -
  from process_query_returns [of mb u q now1 now2] obtain res where
    pq: "process_query mb u q now1 now2 =
           Inr (\<lparr>student_id = u, query = q, results = res,
                 summary = ''Here are your personalized recommendations.''\<rparr>,
                update_progress mb u ''query'' [''question'' \<mapsto> q, ''timestamp'' \<mapsto> now1] now2)"
    by blast
  have same: "\<exists>mb2. process_query (add_student mb u prof now0) u q now1 now2 =
           Inr (\<lparr>student_id = u, query = q, results = res,
                 summary = ''Here are your personalized recommendations.''\<rparr>, mb2)"
    using pq
    by (auto simp add: process_query_def get_student_context_def Let_def split: sum.splits)
  from pq same show ?thesis
    by (simp add: update_progress_absent [OF assms] get_student_context_def assms)
qed

text \<open>
  A query on the empty bank.
\<close>

theorem unknown_student_query_witness:
  "students init_memory_bank ''ghost'' = None \<and>
   (\<exists>r. process_query init_memory_bank ''ghost'' ''any dsa problem?'' ''t1'' ''t2''
        = Inr (r, init_memory_bank) \<and>
      fst (get_student_context init_memory_bank ''ghost'') = None \<and>
      update_progress init_memory_bank ''ghost'' ''query'' Map.empty ''t2'' = init_memory_bank \<and>
      student_id r = ''ghost'' \<and> query r = ''any dsa problem?'' \<and>
      summary r = ''Here are your personalized recommendations.'')"
proof -
  have n: "students init_memory_bank ''ghost'' = None"
    by (simp add: init_memory_bank_def)
  from unknown_student_query [OF n, of "''any dsa problem?''" "''t1''" "''t2''" "''query''"
      Map.empty "''t2''" Map.empty "''t0''"]
  show ?thesis using n by auto
qed

text \<open>
  C5. Registering a student and then reading the context gives a session with the given
  profile and an empty progress log, whatever the bank held under the id before: the new
  session depends on the profile and the clock only.
\<close>

theorem add_student_then_context:
  "fst (get_student_context (add_student mb sid prof now) sid) =
     Some \<lparr>profile = prof, progress = [], preferences = Map.empty, created_at = now\<rparr>"
  by (simp add: get_student_context_def add_student_def)

text \<open>
  Registering again under an id that already has a logged activity.
\<close>

theorem add_student_then_context_witness:
  "fst (get_student_context
     (add_student
        (update_progress (add_student init_memory_bank ''student_001'' [''name'' \<mapsto> ''Old''] ''t0'')
           ''student_001'' ''query'' Map.empty ''t1'')
        ''student_001'' [''name'' \<mapsto> ''Sai Ganesh''] ''t2'')
     ''student_001'') =
   Some \<lparr>profile = [''name'' \<mapsto> ''Sai Ganesh''], progress = [], preferences = Map.empty,
         created_at = ''t2''\<rparr>"
  using add_student_then_context
    [of "update_progress (add_student init_memory_bank ''student_001'' [''name'' \<mapsto> ''Old''] ''t0'')
           ''student_001'' ''query'' Map.empty ''t1''"
        "''student_001''" "[''name'' \<mapsto> ''Sai Ganesh'']" "''t2''"]
  by simp

text \<open>
  C6. For every student id and query the summary of the response is the fixed string
  \<^verbatim>\<open>Here are your personalized recommendations.\<close>, whichever categories match.
  The results of the response are empty exactly when the lower-cased query contains none
  of the twelve keywords of the four categories; so every query that matches no keyword
  list gets empty results and still that summary. In particular this is so for the query
  \<^verbatim>\<open>help me study\<close>.
\<close>

theorem summary_is_fixed:
  "(\<exists>r mb'. process_query mb u q now1 now2 = Inr (r, mb') \<and>
      summary r = ''Here are your personalized recommendations.'' \<and>
      (results r = Map.empty \<longleftrightarrow>
         \<not> (contains (lower q) ''problem'' \<or> contains (lower q) ''dsa'' \<or>
            contains (lower q) ''algorithm'' \<or>
            contains (lower q) ''resume'' \<or> contains (lower q) ''cv'' \<or>
            contains (lower q) ''ats'' \<or>
            contains (lower q) ''learn'' \<or> contains (lower q) ''resource'' \<or>
            contains (lower q) ''study material'' \<or>
            contains (lower q) ''plan'' \<or> contains (lower q) ''schedule'' \<or>
            contains (lower q) ''weeks''))) \<and>
   (\<exists>r mb'. process_query mb u ''help me study'' now1 now2 = Inr (r, mb') \<and>
      results r = Map.empty \<and>
      summary r = ''Here are your personalized recommendations.'')"
proof -
  from process_query_returns [of mb u q now1 now2] obtain res mb' where
    pq: "process_query mb u q now1 now2 =
           Inr (\<lparr>student_id = u, query = q, results = res,
                 summary = ''Here are your personalized recommendations.''\<rparr>, mb')"
    by blast
  from process_query_empty_iff [OF pq]
  have "res = Map.empty \<longleftrightarrow>
         \<not> (contains (lower q) ''problem'' \<or> contains (lower q) ''dsa'' \<or>
            contains (lower q) ''algorithm'' \<or>
            contains (lower q) ''resume'' \<or> contains (lower q) ''cv'' \<or>
            contains (lower q) ''ats'' \<or>
            contains (lower q) ''learn'' \<or> contains (lower q) ''resource'' \<or>
            contains (lower q) ''study material'' \<or>
            contains (lower q) ''plan'' \<or> contains (lower q) ''schedule'' \<or>
            contains (lower q) ''weeks'')"
    by (simp add: any_in_three)
  with pq have general: "\<exists>r mb'. process_query mb u q now1 now2 = Inr (r, mb') \<and>
      summary r = ''Here are your personalized recommendations.'' \<and>
      (results r = Map.empty \<longleftrightarrow>
         \<not> (contains (lower q) ''problem'' \<or> contains (lower q) ''dsa'' \<or>
            contains (lower q) ''algorithm'' \<or>
            contains (lower q) ''resume'' \<or> contains (lower q) ''cv'' \<or>
            contains (lower q) ''ats'' \<or>
            contains (lower q) ''learn'' \<or> contains (lower q) ''resource'' \<or>
            contains (lower q) ''study material'' \<or>
            contains (lower q) ''plan'' \<or> contains (lower q) ''schedule'' \<or>
            contains (lower q) ''weeks''))"
    by simp
  from process_query_no_match [OF help_me_study_no_match, of mb u now1 now2]
  have scenario: "\<exists>r mb'. process_query mb u ''help me study'' now1 now2 = Inr (r, mb') \<and>
      results r = Map.empty \<and>
      summary r = ''Here are your personalized recommendations.''"
    by simp
  from general scenario show ?thesis by blast
qed

text \<open>
  A query matching all four categories has results; a query matching none has not, and
  neither has \<^verbatim>\<open>help me study\<close>. The summary is the same each time.
\<close>

theorem summary_is_fixed_witness:
  "(\<exists>r mb'. process_query init_memory_bank ''student_001''
        ''Plan my resume: learn DSA in 3 weeks'' ''t1'' ''t2'' = Inr (r, mb') \<and>
      summary r = ''Here are your personalized recommendations.'' \<and>
      results r \<noteq> Map.empty) \<and>
   (\<exists>r mb'. process_query init_memory_bank ''student_001'' ''What is the weather today?''
        ''t1'' ''t2'' = Inr (r, mb') \<and>
      summary r = ''Here are your personalized recommendations.'' \<and>
      results r = Map.empty) \<and>
   (\<exists>r mb'. process_query init_memory_bank ''student_001'' ''help me study'' ''t1'' ''t2''
        = Inr (r, mb') \<and>
      results r = Map.empty \<and>
      summary r = ''Here are your personalized recommendations.'')"
proof -
  have m: "contains (lower ''Plan my resume: learn DSA in 3 weeks'') ''plan''" by code_simp
  have n: "\<not> contains (lower ''What is the weather today?'') ''problem''"
    "\<not> contains (lower ''What is the weather today?'') ''dsa''"
    "\<not> contains (lower ''What is the weather today?'') ''algorithm''"
    "\<not> contains (lower ''What is the weather today?'') ''resume''"
    "\<not> contains (lower ''What is the weather today?'') ''cv''"
    "\<not> contains (lower ''What is the weather today?'') ''ats''"
    "\<not> contains (lower ''What is the weather today?'') ''learn''"
    "\<not> contains (lower ''What is the weather today?'') ''resource''"
    "\<not> contains (lower ''What is the weather today?'') ''study material''"
    "\<not> contains (lower ''What is the weather today?'') ''plan''"
    "\<not> contains (lower ''What is the weather today?'') ''schedule''"
    "\<not> contains (lower ''What is the weather today?'') ''weeks''"
    by code_simp+
  from summary_is_fixed [of init_memory_bank "''student_001''"
      "''Plan my resume: learn DSA in 3 weeks''" "''t1''" "''t2''"]
    summary_is_fixed [of init_memory_bank "''student_001''"
      "''What is the weather today?''" "''t1''" "''t2''"]
  show ?thesis using m n by auto
qed

text \<open>
  C7. For every number of weeks from 1 on and every non-empty list of focus areas,
  \<^verbatim>\<open>create_plan\<close> returns a plan whose weekly schedule has exactly that many entries,
  and the entry of week \<open>w\<close> (for \<open>w\<close> from 1 to the number of weeks) carries the week
  number \<open>w\<close> and the focus area at index \<open>(w - 1) mod length focus_areas\<close>.
\<close>

theorem create_plan_round_robin:
  assumes "1 \<le> weeks" and "focus_areas \<noteq> []"
  shows "\<exists>p. create_plan weeks focus_areas hours_per_day = Inr p \<and>
     int (length (weekly_schedule p)) = weeks \<and>
     (\<forall>w. 1 \<le> w \<and> w \<le> weeks \<longrightarrow>
        week (weekly_schedule p ! nat (w - 1)) = w \<and>
        focus (weekly_schedule p ! nat (w - 1)) =
          focus_areas ! (nat (w - 1) mod length focus_areas))"
proof -
  from create_plan_schedule [OF assms(2), of weeks hours_per_day] obtain p where
    cp: "create_plan weeks focus_areas hours_per_day = Inr p"
    and sched: "weekly_schedule p =
       map (\<lambda>w. \<lparr>week = w,
                  focus = focus_areas ! nat ((w - 1) mod int (length focus_areas)),
                  activities = [''Practice coding problems'', ''Mock interviews'', ''Resume review'']\<rparr>)
           [1..weeks]"
    by blast
  from assms(1) have len: "int (length (weekly_schedule p)) = weeks"
    by (simp add: sched)
  have each: "week (weekly_schedule p ! nat (w - 1)) = w \<and>
        focus (weekly_schedule p ! nat (w - 1)) =
          focus_areas ! (nat (w - 1) mod length focus_areas)"
    if w: "1 \<le> w" "w \<le> weeks" for w
  proof -
    from w have i: "nat (w - 1) < length [1..weeks]" by simp
    from w have nth: "[1..weeks] ! nat (w - 1) = w" by simp
    from assms(2) have pos: "0 < length focus_areas" by simp
    from w have "nat ((w - 1) mod int (length focus_areas)) = nat (w - 1) mod length focus_areas"
      by (simp add: nat_mod_distrib)
    with i nth show ?thesis by (simp add: sched)
  qed
  from cp len each show ?thesis by blast
qed

text \<open>
  Four weeks over \<^verbatim>\<open>DSA\<close> and \<^verbatim>\<open>System Design\<close>: the focus alternates,
  starting with \<^verbatim>\<open>DSA\<close>.
\<close>

theorem create_plan_round_robin_witness:
  "(1::int) \<le> 4 \<and> [''DSA'', ''System Design''] \<noteq> [] \<and>
   (\<exists>p. create_plan 4 [''DSA'', ''System Design''] 4 = Inr p \<and>
      length (weekly_schedule p) = 4 \<and>
      focus (weekly_schedule p ! 0) = ''DSA'' \<and>
      focus (weekly_schedule p ! 1) = ''System Design'' \<and>
      focus (weekly_schedule p ! 2) = ''DSA'' \<and>
      focus (weekly_schedule p ! 3) = ''System Design'')"
proof -
  have h1: "(1::int) \<le> 4" by simp
  have h2: "[''DSA'', ''System Design''] \<noteq> []" by simp
  from create_plan_round_robin [OF h1 h2, of 4] obtain p where
    cp: "create_plan 4 [''DSA'', ''System Design''] 4 = Inr p"
    and len: "int (length (weekly_schedule p)) = 4"
    and each: "\<And>w. 1 \<le> w \<and> w \<le> 4 \<Longrightarrow>
        focus (weekly_schedule p ! nat (w - 1)) =
          [''DSA'', ''System Design''] ! (nat (w - 1) mod length [''DSA'', ''System Design''])"
    by blast
  have i1: "nat (1 - 1) mod length [''DSA'', ''System Design''] = 0" by code_simp
  have i2: "nat (2 - 1) mod length [''DSA'', ''System Design''] = 1" by code_simp
  have i3: "nat (3 - 1) mod length [''DSA'', ''System Design''] = 0" by code_simp
  have i4: "nat (4 - 1) mod length [''DSA'', ''System Design''] = 1" by code_simp
  from each [of 1] have f1: "focus (weekly_schedule p ! 0) = ''DSA''"
    unfolding i1 by simp
  from each [of 2] have f2: "focus (weekly_schedule p ! 1) = ''System Design''"
    unfolding i2 by simp
  from each [of 3] have f3: "focus (weekly_schedule p ! 2) = ''DSA''"
    unfolding i3 by simp
  from each [of 4] have f4: "focus (weekly_schedule p ! 3) = ''System Design''"
    unfolding i4 by simp
  from len have "length (weekly_schedule p) = 4" by simp
  with cp f1 f2 f3 f4 show ?thesis by simp
qed

text \<open>
  C8. The score of the resume analyzer is monotonic in the number of technical skills
  found: if one text has at most as many matches as another, its score is at most the
  other's. Every score lies between 0 and 100. The matches counted are the ones the
  analysis reports under \<^verbatim>\<open>technical_skills\<close>.
\<close>

theorem ats_score_monotone:
  "(length (found_tech t1) \<le> length (found_tech t2) \<longrightarrow>
      ats_score (analyze t1 role1) \<le> ats_score (analyze t2 role2)) \<and>
   0 \<le> ats_score (analyze t role) \<and> ats_score (analyze t role) \<le> 100 \<and>
   keyword_analysis (analyze t role) ''technical_skills'' = Some (found_tech t)"
  using found_tech_bound [of t] by (simp add: ats_score_eq) (simp add: analyze_def Let_def)

text \<open>
  No match against three matches.
\<close>

theorem ats_score_monotone_witness:
  "length (found_tech ''Sample resume text'') \<le> length (found_tech ''Python, SQL and AWS'') \<and>
   ats_score (analyze ''Sample resume text'' ''Software Engineer'') = 20 \<and>
   ats_score (analyze ''Python, SQL and AWS'' ''Software Engineer'') = 35 \<and>
   ats_score (analyze ''Sample resume text'' ''Software Engineer'')
     \<le> ats_score (analyze ''Python, SQL and AWS'' ''Software Engineer'')"
proof -
  have a: "found_tech ''Sample resume text'' = []" by code_simp
  have b: "found_tech ''Python, SQL and AWS'' = [''python'', ''sql'', ''aws'']" by code_simp
  from ats_score_monotone [of "''Sample resume text''" "''Python, SQL and AWS''"
      "''Software Engineer''" "''Software Engineer''"]
  show ?thesis using a b by (simp add: ats_score_eq)
qed

text \<open>
  C9. Apart from \<^verbatim>\<open>add_student\<close> overwriting the session of its own id, the
  operations of the memory bank and \<^verbatim>\<open>process_query\<close> keep the progress log of
  every existing session as a prefix of the new log: \<^verbatim>\<open>update_progress\<close> and
  \<^verbatim>\<open>process_query\<close> add at most one entry at the end, \<^verbatim>\<open>get_student_context\<close>
  leaves the bank as it is, and \<^verbatim>\<open>add_student\<close> for another id leaves the session
  untouched.
\<close>

theorem progress_is_append_only:
  assumes "students mb u = Some s"
  shows "(\<exists>s'. students (update_progress mb sid act det now) u = Some s' \<and>
            prefix (progress s) (progress s') \<and>
            length (progress s') \<le> length (progress s) + 1) \<and>
         snd (get_student_context mb sid) = mb \<and>
         (\<exists>r mb' s'. process_query mb sid q now1 now2 = Inr (r, mb') \<and>
            students mb' u = Some s' \<and>
            prefix (progress s) (progress s') \<and>
            length (progress s') \<le> length (progress s) + 1) \<and>
         (sid \<noteq> u \<longrightarrow> students (add_student mb sid prof now0) u = Some s)"
proof -
  from process_query_returns [of mb sid q now1 now2] obtain res where
    pq: "process_query mb sid q now1 now2 =
           Inr (\<lparr>student_id = sid, query = q, results = res,
                 summary = ''Here are your personalized recommendations.''\<rparr>,
                update_progress mb sid ''query'' [''question'' \<mapsto> q, ''timestamp'' \<mapsto> now1] now2)"
    by blast
  from update_progress_prefix [OF assms] pq
  have "\<exists>r mb' s'. process_query mb sid q now1 now2 = Inr (r, mb') \<and>
            students mb' u = Some s' \<and>
            prefix (progress s) (progress s') \<and>
            length (progress s') \<le> length (progress s) + 1"
    by simp
  with update_progress_prefix [OF assms, of sid act det now] assms show ?thesis
    by (simp add: get_student_context_def add_student_def)
qed

text \<open>A bank whose one student has one logged query: another activity, a query and a
  context read keep that entry in front; registering somebody else keeps the session.\<close>

theorem progress_is_append_only_witness:
  "students (update_progress (add_student init_memory_bank ''a'' Map.empty ''t0'')
               ''a'' ''query'' Map.empty ''t1'') ''a'' =
     Some \<lparr>profile = Map.empty,
           progress = [\<lparr>activity = ''query'', details = Map.empty, timestamp = ''t1''\<rparr>],
           preferences = Map.empty, created_at = ''t0''\<rparr> \<and>
   (\<exists>s'. students
            (update_progress
               (update_progress (add_student init_memory_bank ''a'' Map.empty ''t0'')
                  ''a'' ''query'' Map.empty ''t1'')
               ''a'' ''note'' Map.empty ''t2'') ''a'' = Some s' \<and>
        prefix [\<lparr>activity = ''query'', details = Map.empty, timestamp = ''t1''\<rparr>] (progress s') \<and>
        length (progress s') \<le> 2) \<and>
   (\<exists>r mb' s'. process_query
            (update_progress (add_student init_memory_bank ''a'' Map.empty ''t0'')
               ''a'' ''query'' Map.empty ''t1'')
            ''a'' ''help me study'' ''t2'' ''t3'' = Inr (r, mb') \<and>
        students mb' ''a'' = Some s' \<and>
        prefix [\<lparr>activity = ''query'', details = Map.empty, timestamp = ''t1''\<rparr>] (progress s') \<and>
        length (progress s') \<le> 2) \<and>
   students
     (add_student
        (update_progress (add_student init_memory_bank ''a'' Map.empty ''t0'')
           ''a'' ''query'' Map.empty ''t1'')
        ''b'' Map.empty ''t4'') ''a'' =
     Some \<lparr>profile = Map.empty,
           progress = [\<lparr>activity = ''query'', details = Map.empty, timestamp = ''t1''\<rparr>],
           preferences = Map.empty, created_at = ''t0''\<rparr>"
proof -
  have s: "students (update_progress (add_student init_memory_bank ''a'' Map.empty ''t0'')
               ''a'' ''query'' Map.empty ''t1'') ''a'' =
     Some \<lparr>profile = Map.empty,
           progress = [\<lparr>activity = ''query'', details = Map.empty, timestamp = ''t1''\<rparr>],
           preferences = Map.empty, created_at = ''t0''\<rparr>"
    by (simp add: update_progress_def add_student_def)
  from progress_is_append_only [OF s, of "''a''" "''note''" Map.empty "''t2''"
      "''help me study''" "''t2''" "''t3''" Map.empty "''t4''"]
    progress_is_append_only [OF s, of "''b''" "''note''" Map.empty "''t2''"
      "''help me study''" "''t2''" "''t3''" Map.empty "''t4''"]
  show ?thesis using s by (simp add: numeral_2_eq_2)
qed

text \<open>
  C10. The vocabulary of technical skills has exactly nine entries; for every text the
  score is five times the number of matches plus 20, hence at least 20 (reached by the
  empty text), at most 65 (reached by a text with all nine skills) and never 0: the cap
  of 100 never binds.
\<close>

theorem ats_score_range:
  "length technical_skills = 9 \<and>
   ats_score (analyze t role) = int (length (found_tech t)) * 5 + 20 \<and>
   20 \<le> ats_score (analyze t role) \<and> ats_score (analyze t role) \<le> 65 \<and>
   ats_score (analyze t role) \<noteq> 0 \<and>
   ats_score (analyze [] role) = 20 \<and>
   ats_score (analyze ''python javascript c++ sql react aws docker kubernetes'' role) = 65"
proof -
  have all: "found_tech ''python javascript c++ sql react aws docker kubernetes'' = technical_skills"
    by code_simp
  have none: "found_tech [] = []" by code_simp
  have n: "length technical_skills = 9" by (simp add: technical_skills_def)
  from found_tech_bound [of t] n show ?thesis
    by (simp add: ats_score_eq all none)
qed

text \<open>
  The placeholder resume of the coordinator scores 20, a text with two skills 30.
\<close>

theorem ats_score_range_witness:
  "length technical_skills = 9 \<and>
   ats_score (analyze ''Sample resume text'' ''Software Engineer'') = 20 \<and>
   ats_score (analyze ''I know Java and Docker'' ''Software Engineer'') = 30"
proof -
  have a: "found_tech ''Sample resume text'' = []" by code_simp
  have b: "found_tech ''I know Java and Docker'' = [''java'', ''docker'']" by code_simp
  from ats_score_range [of "''Sample resume text''" "''Software Engineer''"]
    ats_score_range [of "''I know Java and Docker''" "''Software Engineer''"]
  show ?thesis using a b by simp
qed

end
